theory Spec2Isabelle
  imports Complex_Main
begin

section \<open>The flattened B\'ezier path buffer of VMobject\<close>

text \<open>
  A \<^verbatim>\<open>VMobject\<close> owns \<^verbatim>\<open>self.points\<close>, a numpy array of 3D points read in chunks
  of \<^verbatim>\<open>n_points_per_cubic_curve\<close> (4) as cubic B\'ezier curves. The buffer is modelled as
  a list over an arbitrary point type \<open>'p\<close>: no operation below looks inside a point
  except through the helpers of \<^verbatim>\<open>manim.utils.bezier\<close>, which are not among the sources
  and are taken as parameters. Python floats are modelled as \<open>real\<close>.

  A method that mutates \<^verbatim>\<open>self.points\<close> takes the buffer as its last argument and
  returns the new buffer; a \<^verbatim>\<open>raise\<close> is the value \<open>Inl e\<close>.
\<close>

datatype error =
    NoPoints          \<comment> \<open>\<^verbatim>\<open>throw_error_if_no_points\<close>\<close>
  | IndexError        \<comment> \<open>an index out of range\<close>
  | AlphaOutOfRange   \<comment> \<open>\<^verbatim>\<open>ValueError("Alpha ... not between 0 and 1.")\<close>\<close>
  | PointNotOnCurve   \<comment> \<open>\<^verbatim>\<open>ValueError("Point ... does not lie on this curve.")\<close>\<close>
  | NotSureHowReached \<comment> \<open>the \<^verbatim>\<open>Exception\<close> that ends \<^verbatim>\<open>point_from_proportion\<close>\<close>
  | ShapeMismatch     \<comment> \<open>numpy refuses an assignment or an array shape\<close>
  | NoCurveToSplit    \<comment> \<open>\<^verbatim>\<open>bezier_remap\<close> has no curve to split\<close>
  | AssertionError    \<comment> \<open>an \<^verbatim>\<open>assert\<close> fails\<close>
  | ZeroDivisionError \<comment> \<open>a float modulo by zero\<close>

definition n_points_per_cubic_curve :: nat where
  "n_points_per_cubic_curve = 4"

definition n_points_per_curve :: nat where
  "n_points_per_curve = n_points_per_cubic_curve"

text \<open>\<^verbatim>\<open>self._bezier_t_values = np.linspace(0, 1, n_points_per_cubic_curve)\<close>.\<close>

definition bezier_t_values :: "real list" where
  "bezier_t_values = map (\<lambda>i. real i / real (n_points_per_cubic_curve - 1))
                         [0..<n_points_per_cubic_curve]"

subsection \<open>Python indexing and slicing\<close>

text \<open>\<^verbatim>\<open>xs[-1]\<close>: raises \<^verbatim>\<open>IndexError\<close> on an empty sequence.\<close>

definition py_last :: "'a list \<Rightarrow> error + 'a" where
  "py_last xs = (if xs = [] then Inl IndexError else Inr (last xs))"

text \<open>\<^verbatim>\<open>xs[start::step]\<close> for \<open>0 \<le> start\<close> and \<open>0 < step\<close>: the elements at
  \<open>start\<close>, \<open>start + step\<close>, ... below the length.\<close>

definition slice_step :: "nat \<Rightarrow> nat \<Rightarrow> 'a list \<Rightarrow> 'a list" where
  "slice_step start step xs =
     map (\<lambda>i. xs ! (start + i * step)) [0..<(length xs - start + step - 1) div step]"

text \<open>\<^verbatim>\<open>xs[i:j]\<close> for integers \<open>i\<close>, \<open>j\<close>: a negative index counts from the end, and
  both are clipped to the sequence.\<close>

definition py_clip :: "nat \<Rightarrow> int \<Rightarrow> nat" where
  "py_clip n i = (if i < 0 then nat (max 0 (int n + i)) else min n (nat i))"

definition py_slice :: "'a list \<Rightarrow> int \<Rightarrow> int \<Rightarrow> 'a list" where
  "py_slice xs i j =
     (let lo = py_clip (length xs) i; hi = py_clip (length xs) j
      in take (hi - lo) (drop lo xs))"

subsection \<open>Construction\<close>

text \<open>
  Modelled from the spec: \<^verbatim>\<open>Mobject.throw_error_if_no_points\<close> is inherited from
  \<^verbatim>\<open>manim.mobject.mobject\<close>, which is not among the sources. The spec: extending a path
  with no points when an implicit last point is needed fails with a distinguishable
  "no points" condition.
\<close>

definition throw_error_if_no_points :: "'p list \<Rightarrow> error + unit" where
  "throw_error_if_no_points points = (if points = [] then Inl NoPoints else Inr ())"

definition set_points :: "'p list \<Rightarrow> 'p list \<Rightarrow> 'p list" where
  "set_points new_points points = new_points"

definition append_points :: "'p list \<Rightarrow> 'p list \<Rightarrow> 'p list" where
  "append_points new_points points = points @ new_points"

definition get_start_anchors :: "'p list \<Rightarrow> 'p list" where
  "get_start_anchors points = slice_step 0 n_points_per_cubic_curve points"

definition get_num_curves :: "'p list \<Rightarrow> nat" where
  "get_num_curves points = length points div n_points_per_cubic_curve"

definition has_new_path_started :: "'p list \<Rightarrow> bool" where
  "has_new_path_started points = (length points mod n_points_per_cubic_curve = 1)"

definition get_last_point :: "'p list \<Rightarrow> error + 'p" where
  "get_last_point points = py_last points"

definition start_new_path :: "'p \<Rightarrow> 'p list \<Rightarrow> error + 'p list" where
  "start_new_path point points =
     (let n_points = length points; nppc = n_points_per_curve in
      if n_points mod nppc \<noteq> 0 then
        (case py_last (get_start_anchors points) of
           Inl e \<Rightarrow> Inl e
         | Inr last_anchor \<Rightarrow>
             (let closure = replicate (nppc - n_points mod nppc) last_anchor
              in Inr (append_points (closure @ [point]) points)))
      else Inr (append_points [point] points))"

definition add_cubic_bezier_curve_to :: "'p \<Rightarrow> 'p \<Rightarrow> 'p \<Rightarrow> 'p list \<Rightarrow> error + 'p list" where
  "add_cubic_bezier_curve_to handle1 handle2 anchor points =
     (case throw_error_if_no_points points of
        Inl e \<Rightarrow> Inl e
      | Inr _ \<Rightarrow>
          (let new_points = [handle1, handle2, anchor] in
           if has_new_path_started points then Inr (append_points new_points points)
           else (case get_last_point points of
                   Inl e \<Rightarrow> Inl e
                 | Inr lp \<Rightarrow> Inr (append_points ([lp] @ new_points) points))))"

text \<open>
  \<^verbatim>\<open>add_line_to\<close> unpacks \<^verbatim>\<open>interpolate(self.get_last_point(), point, t)\<close> for the three
  values \<^verbatim>\<open>_bezier_t_values[1:]\<close> before it calls \<^verbatim>\<open>add_cubic_bezier_curve_to\<close>, so on an
  empty buffer the \<^verbatim>\<open>IndexError\<close> of \<^verbatim>\<open>get_last_point\<close> comes first. \<open>interpolate\<close> is
  the helper of \<^verbatim>\<open>manim.utils.bezier\<close>.
\<close>

definition add_line_to :: "('p \<Rightarrow> 'p \<Rightarrow> real \<Rightarrow> 'p) \<Rightarrow> 'p \<Rightarrow> 'p list \<Rightarrow> error + 'p list" where
  "add_line_to interpolate point points =
     (case get_last_point points of
        Inl e \<Rightarrow> Inl e
      | Inr lp \<Rightarrow>
          (case map (interpolate lp point) (tl bezier_t_values) of
             [handle1, handle2, anchor] \<Rightarrow> add_cubic_bezier_curve_to handle1 handle2 anchor points
           | _ \<Rightarrow> Inl ShapeMismatch))"

text \<open>
  \<^verbatim>\<open>add_points_as_corners\<close>: the loop over \<^verbatim>\<open>_bezier_t_values\<close> writes every column
  \<^verbatim>\<open>new_points[i::nppcc]\<close>, so each new curve is the four interpolations between its start
  corner and its end corner.
\<close>

definition add_points_as_corners ::
  "('p \<Rightarrow> 'p \<Rightarrow> real \<Rightarrow> 'p) \<Rightarrow> 'p list \<Rightarrow> 'p list \<Rightarrow> error + 'p list" where
  "add_points_as_corners interpolate corners points =
     (case throw_error_if_no_points points of
        Inl e \<Rightarrow> Inl e
      | Inr _ \<Rightarrow>
          if length corners = 0 then Inr points
          else
            (let start_corners = last points # butlast corners;
                 end_corners = corners;
                 points1 = (if has_new_path_started points then butlast points else points);
                 new_points = concat (map (\<lambda>(s, e). map (interpolate s e) bezier_t_values)
                                          (zip start_corners end_corners))
             in Inr (append_points new_points points1)))"

text \<open>The buffer a caller finds after a call: an exception is raised before any
  assignment to \<^verbatim>\<open>self.points\<close>, so it leaves the buffer as it was.\<close>

definition buffer_after :: "'p list \<Rightarrow> error + 'p list \<Rightarrow> 'p list" where
  "buffer_after points r = (case r of Inl _ \<Rightarrow> points | Inr points' \<Rightarrow> points')"


subsection \<open>Curves, lengths and proportions\<close>

text \<open>
  The geometry kernel is not among the sources and is taken as parameters:
  \<open>bezier\<close> is \<^verbatim>\<open>manim.utils.bezier.bezier\<close> (the function of a curve's control points),
  \<open>norm_diff p q\<close> is \<^verbatim>\<open>np.linalg.norm(q - p)\<close>, and \<open>proportions_along\<close> is
  \<^verbatim>\<open>proportions_along_bezier_curve_for_point\<close> (the root finder).
\<close>

text \<open>\<^verbatim>\<open>np.linspace(0, 1, n)\<close>; for \<open>n = 1\<close> it is \<^verbatim>\<open>[0.]\<close>, which the quotient
  \<open>0 / 0 = 0\<close> of HOL gives as well.\<close>

definition linspace01 :: "nat \<Rightarrow> real list" where
  "linspace01 n = map (\<lambda>i. real i / real (n - 1)) [0..<n]"

text \<open>\<^verbatim>\<open>get_nth_curve_points\<close> starts with \<^verbatim>\<open>assert n < self.get_num_curves()\<close>.\<close>

definition get_nth_curve_points :: "nat \<Rightarrow> 'p list \<Rightarrow> error + 'p list" where
  "get_nth_curve_points n points =
     (if \<not> n < get_num_curves points then Inl AssertionError
      else (let nppcc = n_points_per_cubic_curve
            in Inr (py_slice points (int (nppcc * n)) (int (nppcc * (n + 1))))))"

definition get_nth_curve_function ::
  "('p list \<Rightarrow> real \<Rightarrow> 'p) \<Rightarrow> nat \<Rightarrow> 'p list \<Rightarrow> error + (real \<Rightarrow> 'p)" where
  "get_nth_curve_function bezier n points =
     (case get_nth_curve_points n points of
        Inl e \<Rightarrow> Inl e
      | Inr cps \<Rightarrow> Inr (bezier cps))"

definition get_nth_curve_length_pieces ::
  "('p list \<Rightarrow> real \<Rightarrow> 'p) \<Rightarrow> ('p \<Rightarrow> 'p \<Rightarrow> real) \<Rightarrow> nat \<Rightarrow> nat option \<Rightarrow> 'p list
     \<Rightarrow> error + real list" where
  "get_nth_curve_length_pieces bezier norm_diff n sample_points points =
     (let sample_points1 = (case sample_points of None \<Rightarrow> 10 | Some k \<Rightarrow> k) in
      case get_nth_curve_function bezier n points of
        Inl e \<Rightarrow> Inl e
      | Inr curve \<Rightarrow>
          (let pts = map curve (linspace01 sample_points1);
               norms = map (\<lambda>(p, q). norm_diff p q) (zip (butlast pts) (tl pts))
           in Inr norms))"

definition get_nth_curve_function_with_length ::
  "('p list \<Rightarrow> real \<Rightarrow> 'p) \<Rightarrow> ('p \<Rightarrow> 'p \<Rightarrow> real) \<Rightarrow> nat \<Rightarrow> nat option \<Rightarrow> 'p list
     \<Rightarrow> error + ((real \<Rightarrow> 'p) \<times> real)" where
  "get_nth_curve_function_with_length bezier norm_diff n sample_points points =
     (case get_nth_curve_function bezier n points of
        Inl e \<Rightarrow> Inl e
      | Inr curve \<Rightarrow>
          (case get_nth_curve_length_pieces bezier norm_diff n sample_points points of
             Inl e \<Rightarrow> Inl e
           | Inr norms \<Rightarrow> Inr (curve, sum_list norms)))"


text \<open>Running a generator to its end: the first exception ends the run.\<close>

fun collect :: "(error + 'a) list \<Rightarrow> error + 'a list" where
  "collect [] = Inr []"
| "collect (x # xs) =
     (case x of
        Inl e \<Rightarrow> Inl e
      | Inr v \<Rightarrow> (case collect xs of Inl e \<Rightarrow> Inl e | Inr vs \<Rightarrow> Inr (v # vs)))"

definition get_curve_functions_with_lengths ::
  "('p list \<Rightarrow> real \<Rightarrow> 'p) \<Rightarrow> ('p \<Rightarrow> 'p \<Rightarrow> real) \<Rightarrow> nat option \<Rightarrow> 'p list
     \<Rightarrow> error + ((real \<Rightarrow> 'p) \<times> real) list" where
  "get_curve_functions_with_lengths bezier norm_diff sample_points points =
     (let num_curves = get_num_curves points in
      collect (map (\<lambda>n. get_nth_curve_function_with_length bezier norm_diff n sample_points points)
                   [0..<num_curves]))"


text \<open>The \<^verbatim>\<open>for curve, length in curves_and_lengths\<close> loop of
  \<^verbatim>\<open>point_from_proportion\<close>, with the exception that follows it.\<close>

fun walk_curves :: "((real \<Rightarrow> 'p) \<times> real) list \<Rightarrow> real \<Rightarrow> real \<Rightarrow> error + 'p" where
  "walk_curves [] target_length current_length = Inl NotSureHowReached"
| "walk_curves ((curve, len) # rest) target_length current_length =
     (if current_length + len \<ge> target_length then
        (let residue = (if len \<noteq> 0 then (target_length - current_length) / len else 0)
         in Inr (curve residue))
      else walk_curves rest target_length (current_length + len))"

definition point_from_proportion ::
  "('p list \<Rightarrow> real \<Rightarrow> 'p) \<Rightarrow> ('p \<Rightarrow> 'p \<Rightarrow> real) \<Rightarrow> real \<Rightarrow> 'p list \<Rightarrow> error + 'p" where
  "point_from_proportion bezier norm_diff alpha points =
     (if alpha < 0 \<or> alpha > 1 then Inl AlphaOutOfRange
      else
        (case throw_error_if_no_points points of
           Inl e \<Rightarrow> Inl e
         | Inr _ \<Rightarrow>
             if alpha = 1 then py_last points
             else
               (case get_curve_functions_with_lengths bezier norm_diff None points of
                  Inl e \<Rightarrow> Inl e
                | Inr curves_and_lengths \<Rightarrow>
                    (let target_length = alpha * sum_list (map snd curves_and_lengths)
                     in walk_curves curves_and_lengths target_length 0))))"

text \<open>A method that reads \<^verbatim>\<open>self.points\<close> and assigns nothing to it: the caller finds
  the result and the buffer it passed.\<close>

definition query :: "('p list \<Rightarrow> 'r) \<Rightarrow> 'p list \<Rightarrow> 'r \<times> 'p list" where
  "query method points = (method points, points)"





subsection \<open>Partial curves\<close>

text \<open>
  \<^verbatim>\<open>dst[...] = src\<close> on numpy arrays of points: the shapes must agree, or \<open>src\<close> holds one
  point, which is broadcast. The value is what the slice of \<open>n\<close> points holds afterwards.
\<close>

definition np_assign :: "nat \<Rightarrow> 'p list \<Rightarrow> error + 'p list" where
  "np_assign n src =
     (if length src = n then Inr src
      else if length src = 1 then Inr (replicate n (hd src))
      else Inl ShapeMismatch)"

text \<open>
  \<^verbatim>\<open>pointwise_become_partial(vmobject, a, b)\<close>. \<open>integer_interpolate\<close> and
  \<open>partial_bezier_points\<close> are the helpers of \<^verbatim>\<open>manim.utils.bezier\<close>. The value is the new
  \<^verbatim>\<open>self.points\<close>. In the last branch the buffer is allocated with
  \<^verbatim>\<open>nppc * (upper_index - lower_index + 1)\<close> points and written in three slices,
  \<^verbatim>\<open>[:nppc]\<close>, \<^verbatim>\<open>[nppc:-nppc]\<close> and \<^verbatim>\<open>[-nppc:]\<close>; the two indices differ there, so the
  buffer is empty or holds at least two curves and the slices do not overlap.
\<close>

definition pointwise_become_partial ::
  "(int \<Rightarrow> int \<Rightarrow> real \<Rightarrow> int \<times> real) \<Rightarrow> ('p list \<Rightarrow> real \<Rightarrow> real \<Rightarrow> 'p list)
     \<Rightarrow> 'p list \<Rightarrow> real \<Rightarrow> real \<Rightarrow> 'p list \<Rightarrow> error + 'p list" where
  "pointwise_become_partial integer_interpolate partial_bezier_points vmobject_points a b points =
     (if a \<le> 0 \<and> b \<ge> 1 then Inr (set_points vmobject_points points)
      else
        (let num_curves = get_num_curves vmobject_points in
         if num_curves = 0 then Inr points
         else
           (case integer_interpolate 0 (int num_curves) a of (lower_index, lower_residue) \<Rightarrow>
            case integer_interpolate 0 (int num_curves) b of (upper_index, upper_residue) \<Rightarrow>
              (let nppc = int n_points_per_curve in
               if lower_index = upper_index then
                 Inr (partial_bezier_points
                        (py_slice vmobject_points (nppc * lower_index) (nppc * (lower_index + 1)))
                        lower_residue upper_residue)
               else
                 (let size = nppc * (upper_index - lower_index + 1) in
                  if size < 0 then Inl ShapeMismatch
                  else
                    (case np_assign (min n_points_per_curve (nat size))
                            (partial_bezier_points
                               (py_slice vmobject_points (nppc * lower_index)
                                  (nppc * (lower_index + 1)))
                               lower_residue 1) of
                       Inl e \<Rightarrow> Inl e
                     | Inr first_curve \<Rightarrow>
                    (case np_assign (nat size - 2 * n_points_per_curve)
                            (py_slice vmobject_points (nppc * (lower_index + 1))
                               (nppc * upper_index)) of
                       Inl e \<Rightarrow> Inl e
                     | Inr middle \<Rightarrow>
                    (case np_assign (min n_points_per_curve (nat size))
                            (partial_bezier_points
                               (py_slice vmobject_points (nppc * upper_index)
                                  (nppc * (upper_index + 1)))
                               0 upper_residue) of
                       Inl e \<Rightarrow> Inl e
                     | Inr last_curve \<Rightarrow> Inr (first_curve @ middle @ last_curve)))))))))"

text \<open>\<^verbatim>\<open>is_closed\<close> compares \<^verbatim>\<open>self.points[0]\<close> with \<^verbatim>\<open>self.points[-1]\<close>;
  \<open>consider_points_equals\<close> is \<^verbatim>\<open>np.allclose\<close> with the tolerance of the object.\<close>

definition is_closed :: "('p \<Rightarrow> 'p \<Rightarrow> bool) \<Rightarrow> 'p list \<Rightarrow> error + bool" where
  "is_closed consider_points_equals points =
     (if points = [] then Inl IndexError
      else Inr (consider_points_equals (hd points) (last points)))"

definition append_vectorized_mobject :: "'p list \<Rightarrow> 'p list \<Rightarrow> 'p list" where
  "append_vectorized_mobject vectorized_mobject_points points =
     append_points vectorized_mobject_points
       (if has_new_path_started points then butlast points else points)"

text \<open>\<^verbatim>\<open>get_subcurve\<close> works on copies of \<^verbatim>\<open>self\<close>; the value is the points of the
  object it returns.\<close>

definition get_subcurve ::
  "('p \<Rightarrow> 'p \<Rightarrow> bool) \<Rightarrow> (int \<Rightarrow> int \<Rightarrow> real \<Rightarrow> int \<times> real)
     \<Rightarrow> ('p list \<Rightarrow> real \<Rightarrow> real \<Rightarrow> 'p list) \<Rightarrow> real \<Rightarrow> real \<Rightarrow> 'p list \<Rightarrow> error + 'p list" where
  "get_subcurve consider_points_equals integer_interpolate partial_bezier_points a b points =
     (case is_closed consider_points_equals points of
        Inl e \<Rightarrow> Inl e
      | Inr closed_path \<Rightarrow>
          if closed_path \<and> a > b then
            (case pointwise_become_partial integer_interpolate partial_bezier_points
                    points a 1 points of
               Inl e \<Rightarrow> Inl e
             | Inr vmob \<Rightarrow>
                 (case pointwise_become_partial integer_interpolate partial_bezier_points
                         points 0 b points of
                    Inl e \<Rightarrow> Inl e
                  | Inr vmob2 \<Rightarrow> Inr (append_vectorized_mobject vmob2 vmob)))
          else pointwise_become_partial integer_interpolate partial_bezier_points
                 points a b points)"

subsection \<open>Dashes\<close>

text \<open>Python's \<^verbatim>\<open>x % y\<close> on floats for \<open>y \<noteq> 0\<close>; a zero \<open>y\<close> raises
  \<^verbatim>\<open>ZeroDivisionError\<close>, which the callers below test first.\<close>

definition py_fmod :: "real \<Rightarrow> real \<Rightarrow> real" where
  "py_fmod x y = x - y * of_int \<lfloor>x / y\<rfloor>"

text \<open>The boundary correction of \<^verbatim>\<open>DashedVMobject.__init__\<close> for an open path
  (\<^verbatim>\<open>if not vmobject.is_closed():\<close>), on the non-empty lists of dash starts and ends.\<close>

definition open_path_correction ::
  "real \<Rightarrow> real list \<Rightarrow> real list \<Rightarrow> real list \<times> real list" where
  "open_path_correction dash_len dash_starts dash_ends =
     (if last dash_ends > 1 \<and> last dash_starts > 1 then
        (butlast dash_starts, butlast dash_ends)
      else if last dash_ends < dash_len then
        (if last dash_starts < 1 then
           (dash_starts @ [0], butlast dash_ends @ [1, last dash_ends])
         else (butlast dash_starts @ [0], dash_ends))
      else if last dash_starts > 1 - dash_len then
        (dash_starts, butlast dash_ends @ [1])
      else (dash_starts, dash_ends))"

text \<open>The lists \<^verbatim>\<open>dash_starts\<close> and \<^verbatim>\<open>dash_ends\<close> that \<^verbatim>\<open>DashedVMobject.__init__\<close>
  computes when \<^verbatim>\<open>n > 0\<close>, from \<^verbatim>\<open>vmobject.is_closed()\<close>, \<^verbatim>\<open>num_dashes\<close>,
  \<^verbatim>\<open>dashed_ratio\<close> and \<^verbatim>\<open>dash_offset\<close>.\<close>

definition dash_starts_and_ends ::
  "bool \<Rightarrow> int \<Rightarrow> real \<Rightarrow> real \<Rightarrow> error + (real list \<times> real list)" where
  "dash_starts_and_ends closed_path n r dash_offset =
     (let dash_len = r / of_int n;
          void_len = (if closed_path then (1 - r) / of_int n
                      else (if n = 1 then 1 - r else (1 - r) / of_int (n - 1)));
          period = dash_len + void_len;
          phase_shift = py_fmod dash_offset 1 * period;
          pattern_len = (if closed_path then 1 else 1 + void_len)
      in if pattern_len = 0 then Inl ZeroDivisionError
         else
           (let dash_starts = map (\<lambda>i. py_fmod (real i * period + phase_shift) pattern_len)
                                  [0..<nat n];
                dash_ends = map (\<lambda>i. py_fmod (real i * period + dash_len + phase_shift)
                                          pattern_len)
                                [0..<nat n]
            in if \<not> closed_path then Inr (open_path_correction dash_len dash_starts dash_ends)
               else Inr (dash_starts, dash_ends)))"

text \<open>\<^verbatim>\<open>np.cumsum\<close>.\<close>

fun cumsum_from :: "real \<Rightarrow> real list \<Rightarrow> real list" where
  "cumsum_from acc [] = []"
| "cumsum_from acc (x # xs) = (acc + x) # cumsum_from (acc + x) xs"

definition cumsum :: "real list \<Rightarrow> real list" where
  "cumsum xs = cumsum_from 0 xs"

text \<open>
  \<^verbatim>\<open>DashedVMobject.__init__\<close>: the value is the list of the sub-paths it adds, in order.
  Each is the fresh object \<^verbatim>\<open>get_subcurve\<close> returns, so \<^verbatim>\<open>self.add\<close> adds every one of
  them. \<open>vmobject\<close> is the points buffer of the source path, and \<open>np_interp\<close> is numpy's
  \<^verbatim>\<open>interp\<close>.
\<close>

definition DashedVMobject ::
  "('p \<Rightarrow> 'p \<Rightarrow> bool) \<Rightarrow> (int \<Rightarrow> int \<Rightarrow> real \<Rightarrow> int \<times> real)
     \<Rightarrow> ('p list \<Rightarrow> real \<Rightarrow> real \<Rightarrow> 'p list) \<Rightarrow> ('p list \<Rightarrow> real \<Rightarrow> 'p) \<Rightarrow> ('p \<Rightarrow> 'p \<Rightarrow> real)
     \<Rightarrow> (real \<Rightarrow> real list \<Rightarrow> real list \<Rightarrow> real)
     \<Rightarrow> 'p list \<Rightarrow> int \<Rightarrow> real \<Rightarrow> real \<Rightarrow> bool \<Rightarrow> error + 'p list list" where
  "DashedVMobject consider_points_equals integer_interpolate partial_bezier_points bezier
       norm_diff np_interp vmobject num_dashes dashed_ratio dash_offset equal_lengths =
     (let r = dashed_ratio; n = num_dashes in
      if n > 0 then
        (case is_closed consider_points_equals vmobject of
           Inl e \<Rightarrow> Inl e
         | Inr closed_path \<Rightarrow>
        (case dash_starts_and_ends closed_path n r dash_offset of
           Inl e \<Rightarrow> Inl e
         | Inr (dash_starts, dash_ends) \<Rightarrow>
             if equal_lengths then
               (case collect (map (\<lambda>k. get_nth_curve_length_pieces bezier norm_diff k None vmobject)
                                  [0..<get_num_curves vmobject]) of
                  Inl e \<Rightarrow> Inl e
                | Inr pieces \<Rightarrow>
                    (let norms = 0 # concat pieces;
                         length_vals = cumsum norms;
                         ref_points = linspace01 (length length_vals);
                         curve_length = last length_vals
                     in collect
                          (map (\<lambda>i. get_subcurve consider_points_equals integer_interpolate
                                       partial_bezier_points
                                       (np_interp (dash_starts ! i * curve_length)
                                          length_vals ref_points)
                                       (np_interp (dash_ends ! i * curve_length)
                                          length_vals ref_points)
                                       vmobject)
                               [0..<length dash_starts])))
             else
               collect
                 (map (\<lambda>i. get_subcurve consider_points_equals integer_interpolate
                              partial_bezier_points (dash_starts ! i) (dash_ends ! i) vmobject)
                      [0..<length dash_starts])))
      else Inr [])"

subsection \<open>Subpaths\<close>

text \<open>\<^verbatim>\<open>range(start, stop, step)\<close> for \<open>0 < step\<close>.\<close>

definition py_range :: "nat \<Rightarrow> nat \<Rightarrow> nat \<Rightarrow> nat list" where
  "py_range start stop step =
     map (\<lambda>k. start + k * step) [0..<(stop - start + step - 1) div step]"

text \<open>\<^verbatim>\<open>_gen_subpaths_from_points\<close>: the generator is run to its end, as
  \<^verbatim>\<open>get_subpaths_from_points\<close> does with \<^verbatim>\<open>list(...)\<close>.\<close>

definition gen_subpaths_from_points :: "(nat \<Rightarrow> bool) \<Rightarrow> 'p list \<Rightarrow> 'p list list" where
  "gen_subpaths_from_points filter_func points =
     (let nppcc = n_points_per_cubic_curve;
          filtered = filter filter_func (py_range nppcc (length points) nppcc);
          split_indices = [0] @ filtered @ [length points]
      in map (\<lambda>(i1, i2). py_slice points (int i1) (int i2))
             (filter (\<lambda>(i1, i2). int i2 - int i1 \<ge> int nppcc)
                     (zip split_indices (tl split_indices))))"

definition get_subpaths_from_points :: "('p \<Rightarrow> 'p \<Rightarrow> bool) \<Rightarrow> 'p list \<Rightarrow> 'p list list" where
  "get_subpaths_from_points consider_points_equals points =
     gen_subpaths_from_points
       (\<lambda>n. \<not> consider_points_equals (points ! (n - 1)) (points ! n)) points"

definition get_subpaths :: "('p \<Rightarrow> 'p \<Rightarrow> bool) \<Rightarrow> 'p list \<Rightarrow> 'p list list" where
  "get_subpaths consider_points_equals points =
     get_subpaths_from_points consider_points_equals points"

subsection \<open>Names for the statements about curves\<close>



text \<open>The curve boundaries of a buffer at which a subpath ends: the multiples of 4 strictly
  between 0 and the length where the point before the index and the point at the index
  fail the tolerance equality.\<close>

definition subpath_breaks :: "('p \<Rightarrow> 'p \<Rightarrow> bool) \<Rightarrow> 'p list \<Rightarrow> nat list" where
  "subpath_breaks consider_points_equals points =
     filter (\<lambda>n. \<not> consider_points_equals (points ! (n - 1)) (points ! n))
            (map (\<lambda>k. 4 * (k + 1)) [0..<(length points - 1) div 4])"

subsection \<open>A concrete point type for the examples\<close>

text \<open>Points with three real coordinates and the linear interpolation between two of
  them, at which the theorems below are instantiated.\<close>

type_synonym point3 = "real \<times> real \<times> real"

definition interpolate3 :: "point3 \<Rightarrow> point3 \<Rightarrow> real \<Rightarrow> point3" where
  "interpolate3 a b t =
     (case a of (ax, ay, az) \<Rightarrow> case b of (bx, by, bz) \<Rightarrow>
        ((1 - t) * ax + t * bx, (1 - t) * ay + t * by, (1 - t) * az + t * bz))"

text \<open>The cubic B\'ezier function by de Casteljau's construction, the Euclidean norm of a
  difference, and a root finder that tests the two anchors of a curve only.\<close>

definition bezier3 :: "point3 list \<Rightarrow> real \<Rightarrow> point3" where
  "bezier3 cps t =
     (case cps of
        [p0, p1, p2, p3] \<Rightarrow>
          (let q0 = interpolate3 p0 p1 t; q1 = interpolate3 p1 p2 t; q2 = interpolate3 p2 p3 t;
               r0 = interpolate3 q0 q1 t; r1 = interpolate3 q1 q2 t
           in interpolate3 r0 r1 t)
      | _ \<Rightarrow> (0, 0, 0))"

definition norm_diff3 :: "point3 \<Rightarrow> point3 \<Rightarrow> real" where
  "norm_diff3 p q =
     (case p of (px, py, pz) \<Rightarrow> case q of (qx, qy, qz) \<Rightarrow>
        sqrt ((qx - px)\<^sup>2 + (qy - py)\<^sup>2 + (qz - pz)\<^sup>2))"


text \<open>
  \<^verbatim>\<open>np.allclose(p0, p1, atol=tolerance)\<close> on two points, with numpy's default relative
  tolerance \<open>1e-5\<close>, as \<^verbatim>\<open>consider_points_equals\<close> calls it.
\<close>

definition consider_points_equals3 :: "real \<Rightarrow> point3 \<Rightarrow> point3 \<Rightarrow> bool" where
  "consider_points_equals3 tolerance p0 p1 =
     (case p0 of (ax, ay, az) \<Rightarrow> case p1 of (bx, by, bz) \<Rightarrow>
        \<bar>ax - bx\<bar> \<le> tolerance + \<bar>bx\<bar> / 100000
      \<and> \<bar>ay - by\<bar> \<le> tolerance + \<bar>by\<bar> / 100000
      \<and> \<bar>az - bz\<bar> \<le> tolerance + \<bar>bz\<bar> / 100000)"

text \<open>
  Modelled from the spec: \<^verbatim>\<open>integer_interpolate\<close> of \<^verbatim>\<open>manim.utils.bezier\<close> is not among
  the sources. The spec: \<^verbatim>\<open>integerInterpolate(0, numCurves, x)\<close> returns \<open>(index, residue)\<close>
  such that \<open>index + residue = x * numCurves\<close>, with the index clamped to the valid range.
\<close>

definition integer_interpolate_m :: "int \<Rightarrow> int \<Rightarrow> real \<Rightarrow> int \<times> real" where
  "integer_interpolate_m start stop x =
     (let v = of_int start + of_int (stop - start) * x;
          index = max start (min (stop - 1) \<lfloor>v\<rfloor>)
      in (index, v - of_int index))"

text \<open>
  Modelled from the spec: \<^verbatim>\<open>partial_bezier_points\<close> of \<^verbatim>\<open>manim.utils.bezier\<close> is not among
  the sources. The spec: \<^verbatim>\<open>partialCurve(points4, a, b)\<close> returns the control points of the
  sub-curve for the parameter window \<open>[a, b]\<close> by repeated de Casteljau splitting, and the
  input unchanged for \<open>a = 0\<close>, \<open>b = 1\<close>. The curve is cut at \<open>b\<close>, and the piece before the
  cut is cut again at \<open>a / b\<close>.
\<close>

definition split_before :: "point3 list \<Rightarrow> real \<Rightarrow> point3 list" where
  "split_before cps t =
     (case cps of
        [p0, p1, p2, p3] \<Rightarrow>
          (let q0 = interpolate3 p0 p1 t; q1 = interpolate3 p1 p2 t; q2 = interpolate3 p2 p3 t;
               r0 = interpolate3 q0 q1 t; r1 = interpolate3 q1 q2 t
           in [p0, q0, r0, interpolate3 r0 r1 t])
      | _ \<Rightarrow> cps)"

definition split_after :: "point3 list \<Rightarrow> real \<Rightarrow> point3 list" where
  "split_after cps t =
     (case cps of
        [p0, p1, p2, p3] \<Rightarrow>
          (let q0 = interpolate3 p0 p1 t; q1 = interpolate3 p1 p2 t; q2 = interpolate3 p2 p3 t;
               r0 = interpolate3 q0 q1 t; r1 = interpolate3 q1 q2 t
           in [interpolate3 r0 r1 t, r1, q2, p3])
      | _ \<Rightarrow> cps)"

definition partial_bezier_points3 :: "point3 list \<Rightarrow> real \<Rightarrow> real \<Rightarrow> point3 list" where
  "partial_bezier_points3 cps a b =
     (if a = 0 \<and> b = 1 then cps
      else split_after (split_before cps b) (if b = 0 then 0 else a / b))"

text \<open>numpy's \<^verbatim>\<open>interp(x, xp, fp)\<close>: the piecewise linear function through the points
  \<open>(xp, fp)\<close>, constant outside them.\<close>

fun interp_segments :: "real \<Rightarrow> real list \<Rightarrow> real list \<Rightarrow> real" where
  "interp_segments x (x0 # x1 # xs) (y0 # y1 # ys) =
     (if x < x1 then (if x1 = x0 then y0 else y0 + (x - x0) * (y1 - y0) / (x1 - x0))
      else interp_segments x (x1 # xs) (y1 # ys))"
| "interp_segments x xs (y # ys) = y"
| "interp_segments x xs [] = 0"

definition np_interp_m :: "real \<Rightarrow> real list \<Rightarrow> real list \<Rightarrow> real" where
  "np_interp_m x xp fp =
     (if xp = [] \<or> fp = [] then 0
      else if x \<le> hd xp then hd fp
      else if x \<ge> last xp then last fp
      else interp_segments x xp fp)"

section \<open>Helper lemmas\<close>

lemma nppcc_4: "n_points_per_cubic_curve = 4" "n_points_per_curve = 4"
  by (simp_all add: n_points_per_cubic_curve_def n_points_per_curve_def)

lemma bezier_t_values_eq: "bezier_t_values = [0, 1/3, 2/3, 1]"
  by (simp add: bezier_t_values_def nppcc_4 upt_rec)

lemma get_start_anchors_eq:
  "get_start_anchors pts = map (\<lambda>i. pts ! (4 * i)) [0..<(length pts + 3) div 4]"
  by (simp add: get_start_anchors_def slice_step_def nppcc_4 mult.commute add.commute)

lemma last_get_start_anchors:
  assumes "pts \<noteq> []"
  shows "get_start_anchors pts \<noteq> []"
    and "last (get_start_anchors pts) = pts ! (4 * ((length pts - 1) div 4))"
proof -
  from assms have pos: "0 < length pts" by simp
  then have k: "(length pts + 3) div 4 = Suc ((length pts - 1) div 4)" by arith
  show "get_start_anchors pts \<noteq> []"
    by (simp add: get_start_anchors_eq k del: upt_Suc)
  show "last (get_start_anchors pts) = pts ! (4 * ((length pts - 1) div 4))"
    by (simp add: get_start_anchors_eq k)
qed

lemma length_corner_points:
  "length (concat (map (\<lambda>(s, e). map (f s e) bezier_t_values) zs)) = 4 * length zs"
  by (induction zs) (auto simp: bezier_t_values_eq)

lemma start_new_path_mod:
  assumes "length pts mod 4 = 0 \<or> length pts mod 4 = 1"
  shows "\<exists>pts'. start_new_path p pts = Inr pts' \<and> length pts' mod 4 = 1"
proof (cases "length pts mod 4 = 0")
  case True
  then show ?thesis
    by (simp add: start_new_path_def nppcc_4 append_points_def Let_def mod_Suc)
next
  case False
  with assms have m: "length pts mod 4 = 1" by simp
  then have ne: "pts \<noteq> []" by auto
  have a: "py_last (get_start_anchors pts) = Inr (last (get_start_anchors pts))"
    using last_get_start_anchors(1)[OF ne] by (simp add: py_last_def)
  have "Suc (length pts + 3) mod 4 = 1" using m by (simp add: mod_Suc)
  then show ?thesis using m
    by (simp add: start_new_path_def nppcc_4 append_points_def Let_def a)
qed

lemma add_cubic_mod:
  assumes "length pts mod 4 = 0 \<or> length pts mod 4 = 1"
  shows "(pts = [] \<and> add_cubic_bezier_curve_to h1 h2 a pts = Inl NoPoints)
       \<or> (pts \<noteq> [] \<and> (\<exists>pts'. add_cubic_bezier_curve_to h1 h2 a pts = Inr pts'
                              \<and> length pts' mod 4 = 0))"
proof (cases "pts = []")
  case True
  then show ?thesis by (simp add: add_cubic_bezier_curve_to_def throw_error_if_no_points_def)
next
  case False
  show ?thesis
  proof (cases "length pts mod 4 = 1")
    case True
    then have "(3 + length pts) mod 4 = 0" by presburger
    with False True show ?thesis
      by (simp add: add_cubic_bezier_curve_to_def throw_error_if_no_points_def
          has_new_path_started_def nppcc_4 append_points_def)
  next
    case F: False
    with assms have "length pts mod 4 = 0" by simp
    then have "(length pts + 4) mod 4 = 0" by presburger
    with False F show ?thesis
      by (simp add: add_cubic_bezier_curve_to_def throw_error_if_no_points_def
          has_new_path_started_def nppcc_4 append_points_def get_last_point_def py_last_def)
  qed
qed

lemma add_line_to_eq:
  "add_line_to interpolate q pts =
     (if pts = [] then Inl IndexError
      else add_cubic_bezier_curve_to (interpolate (last pts) q (1/3))
             (interpolate (last pts) q (2/3)) (interpolate (last pts) q 1) pts)"
  by (simp add: add_line_to_def get_last_point_def py_last_def bezier_t_values_eq)

lemma add_points_as_corners_mod:
  assumes "length pts mod 4 = 0 \<or> length pts mod 4 = 1" "pts \<noteq> []" "cs \<noteq> []"
  shows "\<exists>pts'. add_points_as_corners interpolate cs pts = Inr pts' \<and> length pts' mod 4 = 0"
proof -
  have z: "length (zip (last pts # butlast cs) cs) = length cs"
    using assms(3) by (cases cs rule: rev_cases) auto
  show ?thesis
  proof (cases "length pts mod 4 = 1")
    case True
    then have "(length pts - 1 + 4 * length cs) mod 4 = 0" by presburger
    with True assms(2,3) show ?thesis
      by (simp add: add_points_as_corners_def throw_error_if_no_points_def
          has_new_path_started_def nppcc_4 append_points_def length_corner_points z)
  next
    case False
    with assms have "length pts mod 4 = 0" by simp
    then have "(length pts + 4 * length cs) mod 4 = 0" by presburger
    with False assms(2,3) show ?thesis
      by (simp add: add_points_as_corners_def throw_error_if_no_points_def
          has_new_path_started_def nppcc_4 append_points_def length_corner_points z)
  qed
qed


lemma py_slice_nat:
  "py_slice xs (int i) (int j) = take (min (length xs) j - min (length xs) i) (drop (min (length xs) i) xs)"
  by (simp add: py_slice_def py_clip_def Let_def)










lemma collect_length: "collect xs = Inr ys \<Longrightarrow> length ys = length xs"
  by (induction xs arbitrary: ys) (auto split: sum.splits)

lemma open_path_correction_length:
  assumes "length ds = length de" "ds \<noteq> []"
  shows "length (snd (open_path_correction dl ds de)) = length (fst (open_path_correction dl ds de))"
    and "length ds - 1 \<le> length (fst (open_path_correction dl ds de))"
    and "length (fst (open_path_correction dl ds de)) \<le> length ds + 1"
proof -
  from assms have pos: "0 < length ds" "0 < length de" by auto
  then have s: "Suc (length de - Suc 0) = length de" "Suc (length ds - Suc 0) = length ds"
    by simp_all
  show "length (snd (open_path_correction dl ds de)) = length (fst (open_path_correction dl ds de))"
    using assms(1) s by (simp add: open_path_correction_def)
  show "length ds - 1 \<le> length (fst (open_path_correction dl ds de))"
    using s by (simp add: open_path_correction_def)
  show "length (fst (open_path_correction dl ds de)) \<le> length ds + 1"
    using s by (simp add: open_path_correction_def)
qed

lemma dash_starts_and_ends_count:
  assumes "0 < n" "0 < r" "r < 1"
  shows "\<exists>starts ends. dash_starts_and_ends closed_path n r dash_offset = Inr (starts, ends)
           \<and> length ends = length starts
           \<and> (if closed_path then length starts = nat n
               else nat n - 1 \<le> length starts \<and> length starts \<le> nat n + 1)"
proof (cases closed_path)
  case True
  then show ?thesis by (simp add: dash_starts_and_ends_def Let_def)
next
  case False
  define void_len where "void_len = (if n = 1 then 1 - r else (1 - r) / of_int (n - 1))"
  have "0 < void_len" using assms by (auto simp: void_len_def)
  then have nz: "1 + void_len \<noteq> 0" by simp
  let ?ds = "map (\<lambda>i. py_fmod (real i * (r / of_int n + void_len)
                  + py_fmod dash_offset 1 * (r / of_int n + void_len)) (1 + void_len)) [0..<nat n]"
  let ?de = "map (\<lambda>i. py_fmod (real i * (r / of_int n + void_len) + r / of_int n
                  + py_fmod dash_offset 1 * (r / of_int n + void_len)) (1 + void_len)) [0..<nat n]"
  have l: "length ?ds = length ?de" by simp
  have ne: "?ds \<noteq> []" using assms(1) by simp
  have eq: "dash_starts_and_ends closed_path n r dash_offset
              = Inr (open_path_correction (r / of_int n) ?ds ?de)"
    using False nz by (simp add: dash_starts_and_ends_def Let_def void_len_def)
  obtain s e where se: "open_path_correction (r / of_int n) ?ds ?de = (s, e)"
    by (cases "open_path_correction (r / of_int n) ?ds ?de")
  from open_path_correction_length[OF l ne, of "r / of_int n"] se
  have "length e = length s" "length ?ds - 1 \<le> length s" "length s \<le> length ?ds + 1" by simp_all
  then show ?thesis using False eq se by simp
qed

lemma dash_pattern_split_example: "dash_starts_and_ends False 2 (4/5) (1/2) = Inr ([3/10, 9/10, 0], [7/10, 1, 1/10])"
  by (simp add: dash_starts_and_ends_def Let_def py_fmod_def open_path_correction_def upt_rec)

lemma line_is_open: "is_closed (consider_points_equals3 (1/1000000)) [(0,0,0), (1,0,0), (2,0,0), (3,0,0)] = Inr False"
  by (simp add: is_closed_def consider_points_equals3_def)

lemma line_num_curves: "get_num_curves [(0,0,0), (1,0,0), (2,0,0), (3::real,0::real,0::real)] = 1"
  by (simp add: get_num_curves_def nppcc_4)

lemma line_subcurve_first: "get_subcurve (consider_points_equals3 (1/1000000)) integer_interpolate_m
         partial_bezier_points3 (3/10) (7/10) [(0,0,0), (1,0,0), (2,0,0), (3,0,0)]
   = Inr [(9 / 10, 0, 0), (13 / 10, 0, 0), (17 / 10, 0, 0), (21 / 10, 0, 0)]"
  by (simp add: get_subcurve_def line_is_open pointwise_become_partial_def line_num_curves integer_interpolate_m_def
      Let_def nppcc_4 py_slice_def py_clip_def partial_bezier_points3_def split_before_def
      split_after_def interpolate3_def)

lemma line_subcurve_second: "get_subcurve (consider_points_equals3 (1/1000000)) integer_interpolate_m
         partial_bezier_points3 (9/10) 1 [(0,0,0), (1,0,0), (2,0,0), (3,0,0)]
   = Inr [(27 / 10, 0, 0), (14 / 5, 0, 0), (29 / 10, 0, 0), (3, 0, 0)]"
  by (simp add: get_subcurve_def line_is_open pointwise_become_partial_def line_num_curves integer_interpolate_m_def
      Let_def nppcc_4 py_slice_def py_clip_def partial_bezier_points3_def split_before_def
      split_after_def interpolate3_def)

lemma line_subcurve_third: "get_subcurve (consider_points_equals3 (1/1000000)) integer_interpolate_m
         partial_bezier_points3 0 (1/10) [(0,0,0), (1,0,0), (2,0,0), (3,0,0)]
   = Inr [(0, 0, 0), (1 / 10, 0, 0), (1 / 5, 0, 0), (3 / 10, 0, 0)]"
  by (simp add: get_subcurve_def line_is_open pointwise_become_partial_def line_num_curves integer_interpolate_m_def
      Let_def nppcc_4 py_slice_def py_clip_def partial_bezier_points3_def split_before_def
      split_after_def interpolate3_def)

lemma dashed_line_split:
  "DashedVMobject (consider_points_equals3 (1/1000000)) integer_interpolate_m
         partial_bezier_points3 bezier3 norm_diff3 np_interp_m
         [(0,0,0), (1,0,0), (2,0,0), (3,0,0)] 2 (4/5) (1/2) False
   = Inr [[(9 / 10, 0, 0), (13 / 10, 0, 0), (17 / 10, 0, 0), (21 / 10, 0, 0)],
      [(27 / 10, 0, 0), (14 / 5, 0, 0), (29 / 10, 0, 0), (3, 0, 0)],
      [(0, 0, 0), (1 / 10, 0, 0), (1 / 5, 0, 0), (3 / 10, 0, 0)]]"
  by (simp add: DashedVMobject_def line_is_open dash_pattern_split_example upt_rec line_subcurve_first line_subcurve_second line_subcurve_third)

lemma dashed_line_two:
  "DashedVMobject (consider_points_equals3 (1/1000000)) integer_interpolate_m
         partial_bezier_points3 bezier3 norm_diff3 np_interp_m
         [(0,0,0), (1,0,0), (2,0,0), (3,0,0)] 2 (1/2) 0 False
   = Inr [[(0, 0, 0), (1 / 4, 0, 0), (1 / 2, 0, 0), (3 / 4, 0, 0)],
          [(9 / 4, 0, 0), (5 / 2, 0, 0), (11 / 4, 0, 0), (3, 0, 0)]]"
  by (simp add: DashedVMobject_def line_is_open upt_rec dash_starts_and_ends_def Let_def py_fmod_def
      open_path_correction_def
      get_subcurve_def pointwise_become_partial_def line_num_curves integer_interpolate_m_def
      nppcc_4 py_slice_def py_clip_def partial_bezier_points3_def split_before_def
      split_after_def interpolate3_def)

lemma py_range_4: "py_range 4 n 4 = map (\<lambda>k. 4 * (k + 1)) [0..<(n - 1) div 4]"
proof -
  have "(n - 4 + 4 - 1) div 4 = (n - 1) div 4" by arith
  then show ?thesis by (simp add: py_range_def mult.commute add.commute)
qed

lemma subpath_breaks_props:
  "sorted_wrt (\<lambda>a b. a + 4 \<le> b) (0 # subpath_breaks ceq pts)"
  "\<forall>b \<in> set (subpath_breaks ceq pts). b < length pts \<and> b mod 4 = 0"
proof -
  let ?xs = "map (\<lambda>k. 4 * (k + 1)) [0..<(length pts - 1) div 4]"
  have "sorted_wrt (\<lambda>a b. a + 4 \<le> b) ?xs"
    by (simp add: sorted_wrt_map sorted_wrt_iff_nth_less)
  then have "sorted_wrt (\<lambda>a b. a + 4 \<le> b) (subpath_breaks ceq pts)"
    unfolding subpath_breaks_def by (rule sorted_wrt_filter)
  moreover have "\<forall>b \<in> set (subpath_breaks ceq pts). 4 \<le> b"
    by (auto simp: subpath_breaks_def)
  ultimately show "sorted_wrt (\<lambda>a b. a + 4 \<le> b) (0 # subpath_breaks ceq pts)" by auto
  show "\<forall>b \<in> set (subpath_breaks ceq pts). b < length pts \<and> b mod 4 = 0"
    by (auto simp: subpath_breaks_def)
qed

lemma slices_between:
  assumes "sorted_wrt (\<lambda>a b. a + 4 \<le> b) (x # B)"
  shows "map (\<lambda>(i1, i2). take (i2 - i1) (drop i1 pts))
             (filter (\<lambda>(i1, i2). i1 + 4 \<le> i2) (zip (x # B @ [length pts]) (B @ [length pts])))
       = map (\<lambda>(i1, i2). take (i2 - i1) (drop i1 pts)) (zip (x # B) B)
         @ (if last (x # B) + 4 \<le> length pts then [drop (last (x # B)) pts] else [])"
  using assms
proof (induction B arbitrary: x)
  case Nil
  then show ?case by simp
next
  case (Cons y ys)
  then have "x + 4 \<le> y" "sorted_wrt (\<lambda>a b. a + 4 \<le> b) (y # ys)" by simp_all
  with Cons.IH[of y] show ?case by simp
qed

lemma concat_slices:
  assumes "sorted_wrt (\<lambda>a b. a + 4 \<le> b) (x # B)"
  shows "concat (map (\<lambda>(i1, i2). take (i2 - i1) (drop i1 pts)) (zip (x # B) B))
           @ drop (last (x # B)) pts = drop x pts"
  using assms
proof (induction B arbitrary: x)
  case Nil
  then show ?case by simp
next
  case (Cons y ys)
  then have xy: "x + 4 \<le> y" and s: "sorted_wrt (\<lambda>a b. a + 4 \<le> b) (y # ys)" by simp_all
  have "take (y - x) (drop x pts) @ drop y pts = drop x pts"
  proof -
    have "drop y pts = drop (y - x) (drop x pts)" using xy by simp
    then show ?thesis by (simp only: append_take_drop_id)
  qed
  with Cons.IH[OF s] show ?case by simp
qed

lemma slices_lengths:
  assumes "sorted_wrt (\<lambda>a b. a + 4 \<le> b) (x # B)" "\<forall>b \<in> set B. b < length pts"
  shows "\<forall>s \<in> set (map (\<lambda>(i1, i2). take (i2 - i1) (drop i1 pts)) (zip (x # B) B)).
           4 \<le> length s"
  using assms
proof (induction B arbitrary: x)
  case Nil
  then show ?case by simp
next
  case (Cons y ys)
  then have xy: "x + 4 \<le> y" and s: "sorted_wrt (\<lambda>a b. a + 4 \<le> b) (y # ys)"
    and y: "y < length pts" and r: "\<forall>b \<in> set ys. b < length pts" by simp_all
  have "4 \<le> length (take (y - x) (drop x pts))" using xy y by simp
  with Cons.IH[OF s r] show ?case by simp
qed

lemma slices_lengths_mod:
  assumes "sorted_wrt (\<lambda>a b. a + 4 \<le> b) (x # B)" "\<forall>b \<in> set B. b < length pts \<and> b mod 4 = 0"
    "x mod 4 = 0"
  shows "\<forall>s \<in> set (map (\<lambda>(i1, i2). take (i2 - i1) (drop i1 pts)) (zip (x # B) B)).
           length s mod 4 = 0"
  using assms
proof (induction B arbitrary: x)
  case Nil
  then show ?case by simp
next
  case (Cons y ys)
  then have xy: "x + 4 \<le> y" and s: "sorted_wrt (\<lambda>a b. a + 4 \<le> b) (y # ys)"
    and y: "y < length pts" "y mod 4 = 0"
    and r: "\<forall>b \<in> set ys. b < length pts \<and> b mod 4 = 0" by simp_all
  have "length (take (y - x) (drop x pts)) = y - x" using xy y by simp
  moreover have "(y - x) mod 4 = 0" using y(2) Cons.prems(3) xy
    by (simp add: mod_eq_0_iff_dvd dvd_diff_nat)
  ultimately have "length (take (y - x) (drop x pts)) mod 4 = 0" by simp
  with Cons.IH[OF s r y(2)] show ?case by simp
qed


lemma get_subpaths_breaks:
  "get_subpaths ceq pts =
     map (\<lambda>(i1, i2). take (i2 - i1) (drop i1 pts))
         (zip (0 # subpath_breaks ceq pts) (subpath_breaks ceq pts))
     @ (if last (0 # subpath_breaks ceq pts) + 4 \<le> length pts
        then [drop (last (0 # subpath_breaks ceq pts)) pts] else [])"
proof -
  let ?B = "subpath_breaks ceq pts"
  let ?zs = "zip (0 # ?B @ [length pts]) (?B @ [length pts])"
  have B: "filter (\<lambda>n. \<not> ceq (pts ! (n - 1)) (pts ! n)) (py_range 4 (length pts) 4) = ?B"
    by (simp add: py_range_4 subpath_breaks_def)
  have f: "(\<lambda>(i1::nat, i2::nat). int 4 \<le> int i2 - int i1) = (\<lambda>(i1, i2). i1 + 4 \<le> i2)"
    by (auto simp: fun_eq_iff)
  have bound: "i1 \<le> length pts \<and> i2 \<le> length pts" if "(i1, i2) \<in> set ?zs" for i1 i2
  proof -
    from that have "i1 \<in> set (0 # ?B @ [length pts])" "i2 \<in> set (?B @ [length pts])"
      by (auto dest: set_zip_leftD set_zip_rightD)
    then show ?thesis using subpath_breaks_props(2)[of ceq pts] by auto
  qed
  have m: "map (\<lambda>(i1, i2). py_slice pts (int i1) (int i2))
               (filter (\<lambda>(i1, i2). i1 + 4 \<le> i2) ?zs)
         = map (\<lambda>(i1, i2). take (i2 - i1) (drop i1 pts))
               (filter (\<lambda>(i1, i2). i1 + 4 \<le> i2) ?zs)"
    by (rule map_cong[OF refl]) (auto simp: py_slice_nat min_def dest: bound)
  have "get_subpaths ceq pts
          = map (\<lambda>(i1, i2). py_slice pts (int i1) (int i2))
                (filter (\<lambda>(i1, i2). i1 + 4 \<le> i2) ?zs)"
    unfolding get_subpaths_def get_subpaths_from_points_def gen_subpaths_from_points_def
      Let_def nppcc_4 B f by simp
  also note m
  also note slices_between[OF subpath_breaks_props(1), where pts = pts and ceq1 = ceq and pts1 = pts]
  finally show ?thesis .
qed

lemma line_subpaths:
  "get_subpaths (consider_points_equals3 (1/1000000)) [(0,0,0), (1,0,0), (2,0,0), (3,0,0)]
     = [[(0,0,0), (1,0,0), (2,0,0), (3,0,0)]]"
  by code_simp

lemma two_subpaths:
  "get_subpaths (consider_points_equals3 (1/1000000))
     [(0,0,0), (1,0,0), (2,0,0), (3,0,0), (5,0,0), (6,0,0), (7,0,0), (8,0,0)]
     = [[(0,0,0), (1,0,0), (2,0,0), (3,0,0)], [(5,0,0), (6,0,0), (7,0,0), (8,0,0)]]"
  by code_simp

section \<open>Path construction\<close>

text \<open>
  C9. \<^verbatim>\<open>start_new_path(p)\<close> always succeeds. When the buffer length is not a multiple
  of 4 it first appends the start anchor of the unfinished curve, the last element of
  \<^verbatim>\<open>get_start_anchors()\<close> (the point at index \<open>4 * ((length - 1) div 4)\<close>), exactly
  \<open>4 - length mod 4\<close> times, which brings the length to the next multiple of 4, and then
  appends \<open>p\<close>; when the length is a multiple of 4 it appends only \<open>p\<close>. In both cases
  the new length is 1 modulo 4 and \<open>p\<close> is the last element.
\<close>

theorem start_new_path_pads_to_boundary:
  "start_new_path p pts =
     Inr (pts @ (if length pts mod 4 = 0 then []
                 else replicate (4 - length pts mod 4) (last (get_start_anchors pts))) @ [p])
   \<and> (if length pts mod 4 = 0 then True
      else last (get_start_anchors pts) = pts ! (4 * ((length pts - 1) div 4)))
   \<and> (length pts
        + length (if length pts mod 4 = 0 then []
                  else replicate (4 - length pts mod 4) (last (get_start_anchors pts)))) mod 4 = 0
   \<and> length (buffer_after pts (start_new_path p pts)) mod 4 = 1
   \<and> last (buffer_after pts (start_new_path p pts)) = p"
proof (cases "length pts mod 4 = 0")
  case True
  then show ?thesis
    by (simp add: start_new_path_def nppcc_4 append_points_def buffer_after_def Let_def mod_Suc)
next
  case False
  then have ne: "pts \<noteq> []" by auto
  have a: "py_last (get_start_anchors pts) = Inr (last (get_start_anchors pts))"
    using last_get_start_anchors(1)[OF ne] by (simp add: py_last_def)
  have m: "(length pts + (4 - length pts mod 4)) mod 4 = 0" using False by presburger
  have m1: "Suc (length pts + (4 - length pts mod 4)) mod 4 = 1" using m by (simp add: mod_Suc)
  show ?thesis using False last_get_start_anchors(2)[OF ne] m m1
    by (simp add: start_new_path_def nppcc_4 append_points_def buffer_after_def Let_def a)
qed



text \<open>
  C1 (amended). From a buffer whose length is 0 or 1 modulo 4: \<^verbatim>\<open>start_new_path\<close> succeeds
  and leaves the length 1 modulo 4; \<^verbatim>\<open>add_cubic_bezier_curve_to\<close> and \<^verbatim>\<open>add_line_to\<close>
  succeed exactly on a non-empty buffer and leave the length 0 modulo 4 (on the empty
  buffer they raise and the length stays 0); \<^verbatim>\<open>add_points_as_corners\<close> succeeds exactly
  on a non-empty buffer, leaves the length 0 modulo 4 when it is given at least one
  corner, and returns the buffer unchanged when it is given none.
\<close>

theorem path_construction_keeps_length_invariant:
  assumes "length pts mod 4 = 0 \<or> length pts mod 4 = 1"
  shows "(case start_new_path p pts of
            Inl e \<Rightarrow> False
          | Inr pts' \<Rightarrow> length pts' mod 4 = 1)
       \<and> (case add_cubic_bezier_curve_to h1 h2 a pts of
            Inl e \<Rightarrow> pts = [] \<and> e = NoPoints
          | Inr pts' \<Rightarrow> pts \<noteq> [] \<and> length pts' mod 4 = 0)
       \<and> (case add_line_to interpolate q pts of
            Inl e \<Rightarrow> pts = [] \<and> e = IndexError
          | Inr pts' \<Rightarrow> pts \<noteq> [] \<and> length pts' mod 4 = 0)
       \<and> (case add_points_as_corners interpolate cs pts of
            Inl e \<Rightarrow> pts = [] \<and> e = NoPoints
          | Inr pts' \<Rightarrow> pts \<noteq> [] \<and>
              (if cs = [] then pts' = pts else length pts' mod 4 = 0))
       \<and> length (buffer_after pts (add_cubic_bezier_curve_to h1 h2 a pts)) mod 4 = 0
       \<and> length (buffer_after pts (add_line_to interpolate q pts)) mod 4 = 0"
proof -
  have c1: "case start_new_path p pts of Inl e \<Rightarrow> False | Inr pts' \<Rightarrow> length pts' mod 4 = 1"
    using start_new_path_mod[OF assms, of p] by auto
  have c2: "case add_cubic_bezier_curve_to h1 h2 a pts of
            Inl e \<Rightarrow> pts = [] \<and> e = NoPoints
          | Inr pts' \<Rightarrow> pts \<noteq> [] \<and> length pts' mod 4 = 0" for h1 h2 a
    using add_cubic_mod[OF assms, of h1 h2 a] by auto
  have c3: "case add_line_to interpolate q pts of
            Inl e \<Rightarrow> pts = [] \<and> e = IndexError
          | Inr pts' \<Rightarrow> pts \<noteq> [] \<and> length pts' mod 4 = 0"
  proof (cases "pts = []")
    case True then show ?thesis by (simp add: add_line_to_eq)
  next
    case False
    then show ?thesis
      using c2[of "interpolate (last pts) q (1/3)" "interpolate (last pts) q (2/3)"
                  "interpolate (last pts) q 1"]
      by (auto simp: add_line_to_eq split: sum.splits)
  qed
  have c4: "case add_points_as_corners interpolate cs pts of
            Inl e \<Rightarrow> pts = [] \<and> e = NoPoints
          | Inr pts' \<Rightarrow> pts \<noteq> [] \<and>
              (if cs = [] then pts' = pts else length pts' mod 4 = 0)"
  proof (cases "pts = []")
    case True then show ?thesis
      by (simp add: add_points_as_corners_def throw_error_if_no_points_def)
  next
    case ne: False
    show ?thesis
    proof (cases "cs = []")
      case True with ne show ?thesis
        by (simp add: add_points_as_corners_def throw_error_if_no_points_def)
    next
      case False
      with add_points_as_corners_mod[OF assms ne False, of interpolate] ne show ?thesis by auto
    qed
  qed
  have c5: "length (buffer_after pts (add_cubic_bezier_curve_to h1 h2 a pts)) mod 4 = 0"
    using c2[of h1 h2 a] by (auto simp: buffer_after_def split: sum.splits)
  have c6: "length (buffer_after pts (add_line_to interpolate q pts)) mod 4 = 0"
    using c3 by (auto simp: buffer_after_def split: sum.splits)
  from c1 c2 c3 c4 c5 c6 show ?thesis by blast
qed

text \<open>A run of the theorem on the one-point buffer \<open>[(0,0,0)]\<close>.\<close>

theorem path_construction_keeps_length_invariant_witness:
  "(case start_new_path (1,0,0) [(0,0,0)::point3] of
            Inl e \<Rightarrow> False
          | Inr pts' \<Rightarrow> length pts' mod 4 = 1)
       \<and> (case add_cubic_bezier_curve_to (1,0,0) (2,0,0) (3,0,0) [(0,0,0)::point3] of
            Inl e \<Rightarrow> [(0,0,0)::point3] = [] \<and> e = NoPoints
          | Inr pts' \<Rightarrow> [(0,0,0)::point3] \<noteq> [] \<and> length pts' mod 4 = 0)
       \<and> length (buffer_after [(0,0,0)::point3]
            (add_line_to interpolate3 (3,0,0) [(0,0,0)])) mod 4 = 0"
  using path_construction_keeps_length_invariant
    [of "[(0,0,0)::point3]" "(1,0,0)" "(1,0,0)" "(2,0,0)" "(3,0,0)" interpolate3 "(3,0,0)" "[]"]
  by simp

text \<open>The claim as stated fails for \<^verbatim>\<open>add_points_as_corners\<close>: called with no corner
  on the one-point buffer, it returns at \<^verbatim>\<open>if num_points == 0: return self\<close> and the
  length stays 1.\<close>

theorem add_points_as_corners_no_corner_counterexample:
  "\<not> length (buffer_after [(0,0,0)::point3]
       (add_points_as_corners interpolate3 [] [(0,0,0)])) mod 4 = 0"
  by (simp add: add_points_as_corners_def throw_error_if_no_points_def buffer_after_def)

section \<open>Proportions along the path\<close>

text \<open>
  C6. For every \<open>alpha\<close> with \<open>alpha < 0\<close> or \<open>alpha > 1\<close>, \<^verbatim>\<open>point_from_proportion(alpha)\<close>
  raises its \<^verbatim>\<open>ValueError\<close> before anything else, also on an empty buffer, and the points
  buffer is the one the caller passed: the method assigns nothing to \<^verbatim>\<open>self.points\<close>.
\<close>

theorem point_from_proportion_rejects_alpha:
  assumes "alpha < 0 \<or> alpha > 1"
  shows "query (point_from_proportion bezier norm_diff alpha) pts = (Inl AlphaOutOfRange, pts)"
  using assms by (auto simp: query_def point_from_proportion_def)

theorem point_from_proportion_rejects_alpha_witness:
  "query (point_from_proportion bezier3 norm_diff3 2) [(0,0,0), (1,0,0), (2,0,0), (3,0,0)]
     = (Inl AlphaOutOfRange, [(0,0,0), (1,0,0), (2,0,0), (3,0,0)])"
  using point_from_proportion_rejects_alpha
    [of 2 bezier3 norm_diff3 "[(0,0,0), (1,0,0), (2,0,0), (3,0,0)]"]
  by simp

text \<open>
  C10. For every buffer with at least one point, \<^verbatim>\<open>point_from_proportion(1)\<close> returns the
  last element of the buffer, whatever the curve function and the norm are: no curve is
  evaluated and no length is accumulated on this path.
\<close>

theorem point_from_proportion_one:
  assumes "pts \<noteq> []"
  shows "point_from_proportion bezier norm_diff 1 pts = Inr (last pts)"
  using assms by (simp add: point_from_proportion_def throw_error_if_no_points_def py_last_def)

theorem point_from_proportion_one_witness:
  "point_from_proportion bezier3 norm_diff3 1 [(0,0,0), (1,0,0), (2,0,0), (3,0,0)]
     = Inr (3,0,0)"
  using point_from_proportion_one [of "[(0,0,0), (1,0,0), (2,0,0), (3,0,0)]" bezier3 norm_diff3]
  by simp



section \<open>Partial curves\<close>

text \<open>
  C3 (amended). For every source buffer, \<^verbatim>\<open>pointwise_become_partial(source, a, b)\<close> with
  \<open>a \<le> 0\<close> and \<open>b \<ge> 1\<close> sets this path's points to the source's points, element for
  element; and for every other \<open>a\<close>, \<open>b\<close>, a source with zero curves leaves this path's
  points unchanged.
\<close>

theorem pointwise_become_partial_copy_or_noop:
  "(a \<le> 0 \<and> b \<ge> 1 \<longrightarrow>
      pointwise_become_partial integer_interpolate partial_bezier_points vmobject_points a b points
        = Inr vmobject_points)
   \<and> (\<not> (a \<le> 0 \<and> b \<ge> 1) \<and> get_num_curves vmobject_points = 0 \<longrightarrow>
      pointwise_become_partial integer_interpolate partial_bezier_points vmobject_points a b points
        = Inr points)"
  by (simp add: pointwise_become_partial_def set_points_def)

theorem pointwise_become_partial_copy_or_noop_witness:
  "pointwise_become_partial integer_interpolate_m partial_bezier_points3
       [(0,0,0), (1,0,0), (2,0,0), (3,0,0)] 0 1 [(5,5,5)]
     = Inr [(0,0,0), (1,0,0), (2,0,0), (3,0,0)]
   \<and> pointwise_become_partial integer_interpolate_m partial_bezier_points3
       [(1,0,0)] 0 (1/2) [(5,5,5)]
     = Inr [(5,5,5)]"
proof -
  have z: "get_num_curves [(1::real,0::real,0::real)] = 0"
    by (simp add: get_num_curves_def nppcc_4)
  show ?thesis
    using pointwise_become_partial_copy_or_noop
            [of 0 1 integer_interpolate_m partial_bezier_points3
                "[(0,0,0), (1,0,0), (2,0,0), (3,0,0)]" "[(5,5,5)]"]
          pointwise_become_partial_copy_or_noop
            [of 0 "1/2" integer_interpolate_m partial_bezier_points3 "[(1,0,0)]" "[(5,5,5)]"] z
    by simp
qed

text \<open>The claim as stated fails where both parts meet: with \<open>a = 0\<close>, \<open>b = 1\<close> and a
  source of one point (zero curves) the full copy comes first, and an empty path becomes
  that one point.\<close>

theorem pointwise_become_partial_zero_curves_counterexample:
  "get_num_curves [(1::real,0::real,0::real)] = 0
   \<and> pointwise_become_partial integer_interpolate_m partial_bezier_points3
        [(1,0,0)] 0 1 [] \<noteq> Inr []"
  by (simp add: get_num_curves_def nppcc_4 pointwise_become_partial_def set_points_def)

section \<open>Dashes\<close>

text \<open>
  C2 (amended). For \<^verbatim>\<open>num_dashes = k > 0\<close>, every \<^verbatim>\<open>dashed_ratio\<close> in \<open>(0, 1)\<close> and every
  \<^verbatim>\<open>dash_offset\<close>, \<^verbatim>\<open>DashedVMobject.__init__\<close> computes as many dash starts as dash ends:
  exactly \<open>k\<close> for a closed source path, and between \<open>k - 1\<close> and \<open>k + 1\<close> for an open
  one (\<open>k - 1\<close> when the last dash is discarded, \<open>k + 1\<close> when it is split in two at the
  end of the path). When the construction returns, it holds one sub-path per dash: exactly
  \<open>k\<close> on a closed path, at least \<open>k - 1\<close> and at most \<open>k + 1\<close> on an open one.
\<close>

theorem dashed_sub_path_count:
  assumes "0 < n" "0 < r" "r < 1"
  shows "(\<exists>starts ends. dash_starts_and_ends closed_path n r dash_offset = Inr (starts, ends)
           \<and> length ends = length starts
           \<and> (if closed_path then length starts = nat n
               else nat n - 1 \<le> length starts \<and> length starts \<le> nat n + 1))
       \<and> (case DashedVMobject consider_points_equals integer_interpolate partial_bezier_points
                  bezier norm_diff np_interp vmobject n r dash_offset equal_lengths of
            Inl e \<Rightarrow> True
          | Inr subs \<Rightarrow>
              (case is_closed consider_points_equals vmobject of
                 Inl e \<Rightarrow> False
               | Inr c \<Rightarrow>
                   if c then length subs = nat n
                   else nat n - 1 \<le> length subs \<and> length subs \<le> nat n + 1))"
proof
  show "\<exists>starts ends. dash_starts_and_ends closed_path n r dash_offset = Inr (starts, ends)
           \<and> length ends = length starts
           \<and> (if closed_path then length starts = nat n
               else nat n - 1 \<le> length starts \<and> length starts \<le> nat n + 1)"
    by (rule dash_starts_and_ends_count[OF assms])
next
  show "case DashedVMobject consider_points_equals integer_interpolate partial_bezier_points
                  bezier norm_diff np_interp vmobject n r dash_offset equal_lengths of
            Inl e \<Rightarrow> True
          | Inr subs \<Rightarrow>
              (case is_closed consider_points_equals vmobject of
                 Inl e \<Rightarrow> False
               | Inr c \<Rightarrow>
                   if c then length subs = nat n
                   else nat n - 1 \<le> length subs \<and> length subs \<le> nat n + 1)"
  proof (cases "is_closed consider_points_equals vmobject")
    case (Inl e)
    then show ?thesis using assms(1) by (simp add: DashedVMobject_def)
  next
    case (Inr c)
    from dash_starts_and_ends_count[OF assms, of c dash_offset]
    obtain starts ends where se: "dash_starts_and_ends c n r dash_offset = Inr (starts, ends)"
      and b: "if c then length starts = nat n
              else nat n - 1 \<le> length starts \<and> length starts \<le> nat n + 1"
      by blast
    show ?thesis
    proof (cases "DashedVMobject consider_points_equals integer_interpolate partial_bezier_points
                  bezier norm_diff np_interp vmobject n r dash_offset equal_lengths")
      case (Inl e)
      then show ?thesis by simp
    next
      case R: (Inr subs)
      have "length subs = length starts"
        using R assms(1) Inr se
        by (auto simp: DashedVMobject_def Let_def split: if_splits sum.splits dest!: collect_length)
      with b R Inr show ?thesis by (cases c) simp_all
    qed
  qed
qed

text \<open>A run on the straight line from \<open>(0,0,0)\<close> to \<open>(3,0,0)\<close>, an open path of one curve,
  with 2 dashes: the construction returns 2 sub-paths.\<close>

theorem dashed_sub_path_count_witness:
  "DashedVMobject (consider_points_equals3 (1/1000000)) integer_interpolate_m
         partial_bezier_points3 bezier3 norm_diff3 np_interp_m
         [(0,0,0), (1,0,0), (2,0,0), (3,0,0)] 2 (1/2) 0 False
     = Inr [[(0, 0, 0), (1 / 4, 0, 0), (1 / 2, 0, 0), (3 / 4, 0, 0)],
            [(9 / 4, 0, 0), (5 / 2, 0, 0), (11 / 4, 0, 0), (3, 0, 0)]]
   \<and> (case DashedVMobject (consider_points_equals3 (1/1000000)) integer_interpolate_m
         partial_bezier_points3 bezier3 norm_diff3 np_interp_m
         [(0,0,0), (1,0,0), (2,0,0), (3,0,0)] 2 (1/2) 0 False of
            Inl e \<Rightarrow> True
          | Inr subs \<Rightarrow>
              (case is_closed (consider_points_equals3 (1/1000000))
                      [(0,0,0), (1,0,0), (2,0,0), (3,0,0)] of
                 Inl e \<Rightarrow> False
               | Inr c \<Rightarrow>
                   if c then length subs = nat 2
                   else nat 2 - 1 \<le> length subs \<and> length subs \<le> nat 2 + 1))"
proof -
  have h: "(0::int) < 2" "(0::real) < 1/2" "(1/2::real) < 1" by simp_all
  from dashed_sub_path_count [OF h, where closed_path = False and dash_offset = 0
      and consider_points_equals = "consider_points_equals3 (1/1000000)"
      and integer_interpolate = integer_interpolate_m
      and partial_bezier_points = partial_bezier_points3 and bezier = bezier3
      and norm_diff = norm_diff3 and np_interp = np_interp_m
      and vmobject = "[(0,0,0), (1,0,0), (2,0,0), (3,0,0)]" and equal_lengths = False]
  have "case DashedVMobject (consider_points_equals3 (1/1000000)) integer_interpolate_m
         partial_bezier_points3 bezier3 norm_diff3 np_interp_m
         [(0,0,0), (1,0,0), (2,0,0), (3,0,0)] 2 (1/2) 0 False of
            Inl e \<Rightarrow> True
          | Inr subs \<Rightarrow>
              (case is_closed (consider_points_equals3 (1/1000000))
                      [(0,0,0), (1,0,0), (2,0,0), (3,0,0)] of
                 Inl e \<Rightarrow> False
               | Inr c \<Rightarrow>
                   if c then length subs = nat 2
                   else nat 2 - 1 \<le> length subs \<and> length subs \<le> nat 2 + 1)"
    by (rule conjunct2)
  with dashed_line_two show ?thesis by (rule conjI)
qed

text \<open>The claim as stated fails on an open path: with \<^verbatim>\<open>num_dashes = 2\<close>,
  \<^verbatim>\<open>dashed_ratio = 0.8\<close> and \<^verbatim>\<open>dash_offset = 0.5\<close> the last dash starts at 0.9 and wraps to
  end at 0.1; the branch \<^verbatim>\<open>dash_starts.append(0)\<close> splits it in two, and the line gets 3
  sub-paths.\<close>

theorem dashed_open_path_split_counterexample:
  "is_closed (consider_points_equals3 (1/1000000)) [(0,0,0), (1,0,0), (2,0,0), (3,0,0)]
     = Inr False
   \<and> DashedVMobject (consider_points_equals3 (1/1000000)) integer_interpolate_m
         partial_bezier_points3 bezier3 norm_diff3 np_interp_m
         [(0,0,0), (1,0,0), (2,0,0), (3,0,0)] 2 (4/5) (1/2) False
     = Inr [[(9 / 10, 0, 0), (13 / 10, 0, 0), (17 / 10, 0, 0), (21 / 10, 0, 0)],
            [(27 / 10, 0, 0), (14 / 5, 0, 0), (29 / 10, 0, 0), (3, 0, 0)],
            [(0, 0, 0), (1 / 10, 0, 0), (1 / 5, 0, 0), (3 / 10, 0, 0)]]"
  using line_is_open dashed_line_split by (rule conjI)

section \<open>Subpaths\<close>

text \<open>
  C8 (amended). For every points buffer, \<^verbatim>\<open>get_subpaths()\<close> cuts the buffer exactly at the
  curve boundaries (multiples of 4 strictly inside the buffer) where the point before the
  boundary and the point at it fail the tolerance equality: the slices between consecutive
  boundaries are returned in order, and the piece after the last boundary is returned only
  when it holds at least 4 points. Every returned slice contains at least one full curve.
  The slices concatenate to the buffer less a dropped rest of fewer than 4 points; and when
  the buffer length is a multiple of 4 they concatenate to the whole buffer and every slice
  has a length that is 0 modulo 4.
\<close>

theorem get_subpaths_partition:
  "get_subpaths ceq pts =
     map (\<lambda>(i1, i2). take (i2 - i1) (drop i1 pts))
         (zip (0 # subpath_breaks ceq pts) (subpath_breaks ceq pts))
     @ (if last (0 # subpath_breaks ceq pts) + 4 \<le> length pts
        then [drop (last (0 # subpath_breaks ceq pts)) pts] else [])
   \<and> (\<forall>s \<in> set (get_subpaths ceq pts). 4 \<le> length s)
   \<and> pts = concat (get_subpaths ceq pts)
            @ (if last (0 # subpath_breaks ceq pts) + 4 \<le> length pts then []
               else drop (last (0 # subpath_breaks ceq pts)) pts)
   \<and> length pts - length (concat (get_subpaths ceq pts)) < 4
   \<and> (length pts mod 4 = 0 \<longrightarrow>
        concat (get_subpaths ceq pts) = pts
        \<and> (\<forall>s \<in> set (get_subpaths ceq pts). length s mod 4 = 0))"
proof -
  let ?B = "subpath_breaks ceq pts"
  let ?l = "last (0 # ?B)"
  let ?inner = "map (\<lambda>(i1, i2). take (i2 - i1) (drop i1 pts)) (zip (0 # ?B) ?B)"
  note sorted = subpath_breaks_props(1)[of ceq pts]
  note inb = subpath_breaks_props(2)[of ceq pts]
  have lt: "\<forall>b \<in> set ?B. b < length pts" using inb by blast
  have "?l = 0 \<or> ?l \<in> set ?B" by (cases "?B = []") simp_all
  then have l_le: "?l \<le> length pts" and l_mod: "?l mod 4 = 0"
    using inb by auto
  have cat: "concat ?inner @ drop ?l pts = pts"
    using concat_slices[OF sorted, of pts] by simp
  have inner_len: "\<forall>s \<in> set ?inner. 4 \<le> length s"
    by (rule slices_lengths[OF sorted lt])
  have inner_mod: "\<forall>s \<in> set ?inner. length s mod 4 = 0"
    by (rule slices_lengths_mod[OF sorted inb]) simp
  have tail_len: "length (drop ?l pts) = length pts - ?l" by simp
  show ?thesis
  proof (cases "?l + 4 \<le> length pts")
    case True
    then have gs: "get_subpaths ceq pts = ?inner @ [drop ?l pts]"
      by (simp only: get_subpaths_breaks if_True)
    have cc: "concat (get_subpaths ceq pts) = pts"
      unfolding gs using cat by simp
    have c1: "\<forall>s \<in> set (get_subpaths ceq pts). 4 \<le> length s"
      unfolding gs using inner_len True by (simp add: tail_len)
    have c4: "\<forall>s \<in> set (get_subpaths ceq pts). length s mod 4 = 0" if m: "length pts mod 4 = 0"
    proof -
      have "(length pts - ?l) mod 4 = 0" using m l_mod
        by (simp add: mod_eq_0_iff_dvd dvd_diff_nat)
      then show ?thesis unfolding gs using inner_mod by (simp add: tail_len)
    qed
    have c2: "pts = concat (get_subpaths ceq pts)
            @ (if ?l + 4 \<le> length pts then [] else drop ?l pts)"
      using True cc by simp
    have c3: "length pts - length (concat (get_subpaths ceq pts)) < 4"
      by (simp only: cc)
    have c5: "length pts mod 4 = 0 \<longrightarrow>
        concat (get_subpaths ceq pts) = pts
        \<and> (\<forall>s \<in> set (get_subpaths ceq pts). length s mod 4 = 0)"
      using c4 cc by (intro impI conjI)
    show ?thesis
      by (rule conjI[OF get_subpaths_breaks conjI[OF c1 conjI[OF c2 conjI[OF c3 c5]]]])
  next
    case False
    then have gs: "get_subpaths ceq pts = ?inner"
      by (simp only: get_subpaths_breaks if_False append_Nil2)
    have c1: "\<forall>s \<in> set (get_subpaths ceq pts). 4 \<le> length s"
      unfolding gs by (rule inner_len)
    have c2: "pts = concat (get_subpaths ceq pts)
            @ (if ?l + 4 \<le> length pts then [] else drop ?l pts)"
      unfolding gs using False cat by simp
    have "length pts = length (concat ?inner) + length (drop ?l pts)"
      using arg_cong[OF cat, of length] by simp
    then have "length pts - length (concat ?inner) = length pts - ?l" by simp
    moreover have "length pts - ?l < 4" using False by simp
    ultimately have c3: "length pts - length (concat (get_subpaths ceq pts)) < 4"
      unfolding gs by simp
    have c4: "concat (get_subpaths ceq pts) = pts
        \<and> (\<forall>s \<in> set (get_subpaths ceq pts). length s mod 4 = 0)" if m: "length pts mod 4 = 0"
    proof -
      have d: "(length pts - ?l) mod 4 = 0" using m l_mod
        by (simp add: mod_eq_0_iff_dvd dvd_diff_nat)
      have "length pts - ?l < 4" using False by simp
      with d have "length pts - ?l = 0" by simp
      then have "drop ?l pts = []" by simp
      with cat have "concat ?inner = pts" by simp
      then show ?thesis unfolding gs using inner_mod by simp
    qed
    have c5: "length pts mod 4 = 0 \<longrightarrow>
        concat (get_subpaths ceq pts) = pts
        \<and> (\<forall>s \<in> set (get_subpaths ceq pts). length s mod 4 = 0)"
      using c4 by (intro impI)
    show ?thesis
      by (rule conjI[OF get_subpaths_breaks conjI[OF c1 conjI[OF c2 conjI[OF c3 c5]]]])
  qed
qed

text \<open>A run on a buffer of two curves that do not meet: two slices, which concatenate to
  the buffer.\<close>

theorem get_subpaths_partition_witness:
  "get_subpaths (consider_points_equals3 (1/1000000))
     [(0,0,0), (1,0,0), (2,0,0), (3,0,0), (5,0,0), (6,0,0), (7,0,0), (8,0,0)]
     = [[(0,0,0), (1,0,0), (2,0,0), (3,0,0)], [(5,0,0), (6,0,0), (7,0,0), (8,0,0)]]
   \<and> concat (get_subpaths (consider_points_equals3 (1/1000000))
        [(0,0,0), (1,0,0), (2,0,0), (3,0,0), (5,0,0), (6,0,0), (7,0,0), (8,0,0)])
     = [(0,0,0), (1,0,0), (2,0,0), (3,0,0), (5,0,0), (6,0,0), (7,0,0), (8,0,0)]"
proof -
  let ?pts = "[(0,0,0), (1,0,0), (2,0,0), (3,0,0), (5,0,0), (6,0,0), (7,0,0), (8::real,0::real,0::real)]"
  have m: "length ?pts mod 4 = 0" by simp
  have imp: "length ?pts mod 4 = 0 \<longrightarrow>
        concat (get_subpaths (consider_points_equals3 (1/1000000)) ?pts) = ?pts
        \<and> (\<forall>s \<in> set (get_subpaths (consider_points_equals3 (1/1000000)) ?pts). length s mod 4 = 0)"
    by (rule get_subpaths_partition[of "consider_points_equals3 (1/1000000)" ?pts,
          THEN conjunct2, THEN conjunct2, THEN conjunct2, THEN conjunct2])
  have "concat (get_subpaths (consider_points_equals3 (1/1000000)) ?pts) = ?pts"
    by (rule imp[THEN mp, OF m, THEN conjunct1])
  with two_subpaths show ?thesis by (rule conjI)
qed

text \<open>The claim as stated fails on the length of the slices: the buffer of one curve is
  returned as one slice of 4 points, and 4 is not 1 modulo 4.\<close>

theorem get_subpaths_slice_length_counterexample:
  "get_subpaths (consider_points_equals3 (1/1000000)) [(0,0,0), (1,0,0), (2,0,0), (3,0,0)]
     = [[(0,0,0), (1,0,0), (2,0,0), (3,0,0)]]
   \<and> length [(0,0,0), (1,0,0), (2,0,0), (3::real,0::real,0::real)] mod 4 \<noteq> 1"
  using line_subpaths by simp

end
